theory Spec2Isabelle
  imports Main "HOL-Library.Sublist"
begin

section \<open>JavaScript values and the library functions the program calls\<close>

text \<open>
  A JavaScript string is modelled as a \<^typ>\<open>string\<close>: one \<^typ>\<open>char\<close> per code unit, for
  the code units below 256.  The values that can reach the program are the ones
  \<^verbatim>\<open>JSON.parse\<close> builds, and \<^verbatim>\<open>undefined\<close>, which a read of a missing property gives.
  A number is kept as the text \<^verbatim>\<open>ToString\<close> gives for it, since the program does no
  arithmetic.  An object is the list of its own properties, every key once, in property order.
\<close>

datatype jsval =
    JUndefined
  | JNull
  | JBool bool
  | JNumber string
  | JString string
  | JArray "jsval list"
  | JObject "(string \<times> jsval) list"

datatype error =
    NetworkError                  \<comment> \<open>\<^verbatim>\<open>fetch\<close> (or reading the body) rejects\<close>
  | SyntaxError                   \<comment> \<open>\<^verbatim>\<open>JSON.parse\<close> throws\<close>
  | TypeError_read string         \<comment> \<open>a property, named here, is read off \<^verbatim>\<open>undefined\<close> or \<^verbatim>\<open>null\<close>\<close>
  | TypeError_not_function string \<comment> \<open>the property, named here, is called and is no function\<close>
  | TypeError_to_primitive        \<comment> \<open>an object has no way to become a text\<close>
  | StorageError                  \<comment> \<open>\<^verbatim>\<open>Deno.writeTextFile\<close> rejects\<close>

definition nl :: string where
  \<open>nl = [CHR 0x0A]\<close>

text \<open>\<^verbatim>\<open>String.prototype.trim\<close>: white space and line terminators go, at both ends.
  Below 256 these are the tabulators, the line breaks, the blank and the no-break blank.\<close>

definition is_white :: "char \<Rightarrow> bool" where
  \<open>is_white c \<longleftrightarrow>
     c \<in> set [CHR 0x09, CHR 0x0A, CHR 0x0B, CHR 0x0C, CHR 0x0D, CHR 0x20, CHR 0xA0]\<close>

definition trim :: "string \<Rightarrow> string" where
  \<open>trim s = rev (dropWhile is_white (rev (dropWhile is_white s)))\<close>

text \<open>\<^verbatim>\<open>Array.prototype.join\<close>, first on texts, then on values: \<^verbatim>\<open>undefined\<close> and
  \<^verbatim>\<open>null\<close> elements give the empty text, every other element its \<^verbatim>\<open>ToString\<close>.  The
  elements are converted from left to right, and the first one that throws ends the join.

  \<^verbatim>\<open>ToString\<close> of an object asks for its \<^verbatim>\<open>toString\<close> and then its \<^verbatim>\<open>valueOf\<close>.  A parsed
  object inherits both, and the text is \<^verbatim>\<open>[object Object]\<close>, unless it has a key
  \<^verbatim>\<open>toString\<close> of its own: the value under that key is no function, the inherited
  \<^verbatim>\<open>valueOf\<close> (or one of its own, no function either) gives no primitive, and the conversion
  throws.  An array is converted by its inherited \<^verbatim>\<open>join\<close>.\<close>

fun join_text :: "string \<Rightarrow> string list \<Rightarrow> string" where
  \<open>join_text sep [] = []\<close>
| \<open>join_text sep [x] = x\<close>
| \<open>join_text sep (x # y # ys) = x @ sep @ join_text sep (y # ys)\<close>

fun first_throw :: "(error + 'a) list \<Rightarrow> error + 'a list" where
  \<open>first_throw [] = Inr []\<close>
| \<open>first_throw (Inl e # rs) = Inl e\<close>
| \<open>first_throw (Inr x # rs) =
     (case first_throw rs of Inl e \<Rightarrow> Inl e | Inr xs \<Rightarrow> Inr (x # xs))\<close>

fun ToString :: "jsval \<Rightarrow> error + string" where
  \<open>ToString JUndefined = Inr ''undefined''\<close>
| \<open>ToString JNull = Inr ''null''\<close>
| \<open>ToString (JBool b) = Inr (if b then ''true'' else ''false'')\<close>
| \<open>ToString (JNumber t) = Inr t\<close>
| \<open>ToString (JString s) = Inr s\<close>
| \<open>ToString (JArray xs) =
     (case first_throw
        (map (\<lambda>v. case v of JUndefined \<Rightarrow> Inr [] | JNull \<Rightarrow> Inr [] | _ \<Rightarrow> ToString v) xs) of
        Inl e \<Rightarrow> Inl e
      | Inr texts \<Rightarrow> Inr (join_text '','' texts))\<close>
| \<open>ToString (JObject kvs) =
     (case map_of kvs ''toString'' of
        None \<Rightarrow> Inr ''[object Object]''
      | Some v \<Rightarrow> Inl TypeError_to_primitive)\<close>

definition element_text :: "jsval \<Rightarrow> error + string" where
  \<open>element_text v = (case v of JUndefined \<Rightarrow> Inr [] | JNull \<Rightarrow> Inr [] | _ \<Rightarrow> ToString v)\<close>

definition join :: "string \<Rightarrow> jsval list \<Rightarrow> error + string" where
  \<open>join sep xs =
     (case first_throw (map element_text xs) of
        Inl e \<Rightarrow> Inl e
      | Inr texts \<Rightarrow> Inr (join_text sep texts))\<close>

text \<open>\<^verbatim>\<open>JSON.stringify\<close>.  A string is quoted with the escapes of \<^verbatim>\<open>QuoteJSONString\<close>;
  an \<^verbatim>\<open>undefined\<close> property is left out of an object and is \<^verbatim>\<open>null\<close> in an array.
  The program gives it objects of strings only, never \<^verbatim>\<open>undefined\<close> itself.\<close>

definition hex_digit :: "nat \<Rightarrow> char" where
  \<open>hex_digit n = ''0123456789abcdef'' ! (n mod 16)\<close>

definition escape_unit :: "char \<Rightarrow> string" where
  \<open>escape_unit c =
     (if c = CHR 0x08 then [CHR 0x5C, CHR ''b'']
      else if c = CHR 0x09 then [CHR 0x5C, CHR ''t'']
      else if c = CHR 0x0A then [CHR 0x5C, CHR ''n'']
      else if c = CHR 0x0C then [CHR 0x5C, CHR ''f'']
      else if c = CHR 0x0D then [CHR 0x5C, CHR ''r'']
      else if c = CHR 0x22 then [CHR 0x5C, CHR 0x22]
      else if c = CHR 0x5C then [CHR 0x5C, CHR 0x5C]
      else if (of_char c :: nat) < 32
        then [CHR 0x5C, CHR ''u'', CHR ''0'', CHR ''0'',
              hex_digit (of_char c div 16), hex_digit (of_char c)]
      else [c])\<close>

definition QuoteJSONString :: "string \<Rightarrow> string" where
  \<open>QuoteJSONString s = [CHR 0x22] @ concat (map escape_unit s) @ [CHR 0x22]\<close>

fun JSON_stringify :: "jsval \<Rightarrow> string" where
  \<open>JSON_stringify JUndefined = ''null''\<close>
| \<open>JSON_stringify JNull = ''null''\<close>
| \<open>JSON_stringify (JBool b) = (if b then ''true'' else ''false'')\<close>
| \<open>JSON_stringify (JNumber t) = t\<close>
| \<open>JSON_stringify (JString s) = QuoteJSONString s\<close>
| \<open>JSON_stringify (JArray xs) = ''['' @ join_text '','' (map JSON_stringify xs) @ '']''\<close>
| \<open>JSON_stringify (JObject kvs) =
     ''{'' @ join_text '',''
       (map (\<lambda>(k, v). QuoteJSONString k @ '':'' @ JSON_stringify v)
         (filter (\<lambda>(k, v). v \<noteq> JUndefined) kvs)) @ ''}''\<close>

section \<open>The world of one process\<close>

text \<open>
  What the program reaches outside itself is held apart from what it computes.  The
  environment answers; the world is what the process changes.  The provider may answer
  each request differently, so it is asked with the number of requests made before.
  \<^verbatim>\<open>Deno.readTextFile\<close> and \<^verbatim>\<open>Deno.writeTextFile\<close> are taken at the level of texts: the
  file \<^verbatim>\<open>memory.json\<close> holds a text, or is missing or unreadable (\<open>None\<close>).  A write that
  rejects may have touched the file already, so the environment says what it leaves.
\<close>

record request =
  url :: string
  http_method :: string
  headers :: "(string \<times> string) list"
  body :: string

datatype fetch_result =
    Rejected
  | Response nat string   \<comment> \<open>the status and the body text; the program reads the text only\<close>

datatype write_result =
    Written
  | WriteRejected "string option"   \<comment> \<open>what the file holds after the failed write\<close>

record env =
  OPENAI_API_KEY :: "string option"
  provider :: "nat \<Rightarrow> request \<Rightarrow> fetch_result"
  JSON_parse :: "string \<Rightarrow> jsval option"
  storage :: "string option \<Rightarrow> string \<Rightarrow> write_result"

record world =
  history :: "jsval list"           \<comment> \<open>the field of the one \<^verbatim>\<open>GPTHistory\<close> instance\<close>
  memory_json :: "string option"    \<comment> \<open>the file \<^verbatim>\<open>memory.json\<close>\<close>
  stdout :: "string list"           \<comment> \<open>one entry for each \<^verbatim>\<open>console.log\<close>\<close>
  sent :: "request list"            \<comment> \<open>the requests given to \<^verbatim>\<open>fetch\<close>, oldest first\<close>

text \<open>A process starts with \<^verbatim>\<open>new GPTHistory()\<close>, nothing printed and nothing sent.\<close>

definition start :: "string option \<Rightarrow> world" where
  \<open>start file = \<lparr>history = [], memory_json = file, stdout = [], sent = []\<rparr>\<close>

section \<open>GPTHistory.ts\<close>

text \<open>Reading a property.  The program reads \<^verbatim>\<open>choices\<close>, \<^verbatim>\<open>[0]\<close>, \<^verbatim>\<open>message\<close> and
  \<^verbatim>\<open>content\<close>, none of which a prototype defines.\<close>

datatype pkey = P_choices | P_0 | P_message | P_content

fun pkey_name :: "pkey \<Rightarrow> string" where
  \<open>pkey_name P_choices = ''choices''\<close>
| \<open>pkey_name P_0 = ''0''\<close>
| \<open>pkey_name P_message = ''message''\<close>
| \<open>pkey_name P_content = ''content''\<close>

fun get_prop :: "jsval \<Rightarrow> pkey \<Rightarrow> error + jsval" where
  \<open>get_prop JUndefined p = Inl (TypeError_read (pkey_name p))\<close>
| \<open>get_prop JNull p = Inl (TypeError_read (pkey_name p))\<close>
| \<open>get_prop (JObject kvs) p =
     Inr (case map_of kvs (pkey_name p) of None \<Rightarrow> JUndefined | Some v \<Rightarrow> v)\<close>
| \<open>get_prop (JArray xs) P_0 = Inr (case xs of [] \<Rightarrow> JUndefined | x # _ \<Rightarrow> x)\<close>
| \<open>get_prop (JString s) P_0 = Inr (case s of [] \<Rightarrow> JUndefined | c # _ \<Rightarrow> JString [c])\<close>
| \<open>get_prop v p = Inr JUndefined\<close>

definition then_get :: "error + jsval \<Rightarrow> pkey \<Rightarrow> error + jsval" where
  \<open>then_get r p = (case r of Inl e \<Rightarrow> Inl e | Inr v \<Rightarrow> get_prop v p)\<close>

definition request_data :: "string \<Rightarrow> jsval" where
  \<open>request_data prompt =
     JObject [(''model'', JString ''gpt-3.5-turbo''),
              (''messages'', JArray [JObject [(''role'', JString ''user''),
                                              (''content'', JString prompt)]])]\<close>

definition make_request :: "env \<Rightarrow> string \<Rightarrow> request" where
  \<open>make_request en prompt =
     \<lparr>url = ''https://api.openai.com/v1/chat/completions'',
      http_method = ''POST'',
      headers = [(''Content-Type'', ''application/json''),
                 (''Authorization'',
                  ''Bearer '' @ (case OPENAI_API_KEY en of None \<Rightarrow> ''undefined'' | Some k \<Rightarrow> k))],
      body = JSON_stringify (request_data prompt)\<rparr>\<close>

definition callGPTAPI :: "env \<Rightarrow> string \<Rightarrow> world \<Rightarrow> (error + jsval) \<times> world" where
  \<open>callGPTAPI en prompt w =
     (let req = make_request en prompt;
          w' = w\<lparr>sent := sent w @ [req]\<rparr>
      in case provider en (length (sent w)) req of
           Rejected \<Rightarrow> (Inl NetworkError, w')
         | Response status text \<Rightarrow>
             (case JSON_parse en text of
                None \<Rightarrow> (Inl SyntaxError, w')
              | Some response \<Rightarrow>
                  (then_get (then_get (then_get (get_prop response P_choices) P_0)
                     P_message) P_content, w')))\<close>

text \<open>\<^verbatim>\<open>answer.trim()\<close>: the type annotation promises a string, the run time does not.\<close>

fun call_trim :: "jsval \<Rightarrow> error + string" where
  \<open>call_trim (JString s) = Inr (trim s)\<close>
| \<open>call_trim JUndefined = Inl (TypeError_read ''trim'')\<close>
| \<open>call_trim JNull = Inl (TypeError_read ''trim'')\<close>
| \<open>call_trim v = Inl (TypeError_not_function ''trim'')\<close>

definition sendSnippet :: "env \<Rightarrow> string \<Rightarrow> world \<Rightarrow> (error + string) \<times> world" where
  \<open>sendSnippet en command w =
     (let w1 = w\<lparr>history := history w @ [JString command]\<rparr>
      in case join nl (history w1) of
           Inl e \<Rightarrow> (Inl e, w1)
         | Inr prompt \<Rightarrow>
             (let (r, w2) = callGPTAPI en prompt w1
              in case r of
                   Inl e \<Rightarrow> (Inl e, w2)
                 | Inr answer \<Rightarrow> (call_trim answer, w2\<lparr>history := history w2 @ [answer]\<rparr>)))\<close>

section \<open>The script\<close>

definition optimizeMemory_prompt :: "string \<Rightarrow> string" where
  \<open>optimizeMemory_prompt memory =
     nl @ ''  Extract and distill the the current state of conversation from the following content. Only answer with json and meaningful fields. Simplify the structure of the json. Don't give explanations.''
     @ nl @ nl @ ''  '' @ memory @ nl @ ''  ''\<close>

definition optimizeMemory :: "env \<Rightarrow> string \<Rightarrow> world \<Rightarrow> (error + string) \<times> world" where
  \<open>optimizeMemory en memory w =
     (let (r, w') = sendSnippet en (optimizeMemory_prompt memory) w
      in case r of Inl e \<Rightarrow> (Inl e, w') | Inr response \<Rightarrow> (Inr (trim response), w'))\<close>

definition readMemory :: "world \<Rightarrow> string" where
  \<open>readMemory w = (case memory_json w of Some text \<Rightarrow> text | None \<Rightarrow> ''{history:[]}'')\<close>

definition assist_prompt :: "string \<Rightarrow> string \<Rightarrow> string" where
  \<open>assist_prompt message memory =
     nl @ ''You are my personal assistant. You have a json-based memory to enrich your replies.''
     @ nl @ nl @ ''This is your current memory:'' @ nl @ memory
     @ nl @ nl @ ''Here is my message to you:'' @ nl @ message @ nl\<close>

definition assist :: "env \<Rightarrow> string \<Rightarrow> string \<Rightarrow> world \<Rightarrow> (error + string) \<times> world" where
  \<open>assist en message memory w = sendSnippet en (assist_prompt message memory) w\<close>

text \<open>\<^verbatim>\<open>console.log\<close> prints its arguments with a blank between them (the first one
  holds no format directive where the script gives two).\<close>

definition console_log :: "string list \<Rightarrow> world \<Rightarrow> world" where
  \<open>console_log args w = w\<lparr>stdout := stdout w @ [join_text '' '' args]\<rparr>\<close>

definition writeTextFile :: "env \<Rightarrow> string \<Rightarrow> world \<Rightarrow> (error + unit) \<times> world" where
  \<open>writeTextFile en text w =
     (case storage en (memory_json w) text of
        Written \<Rightarrow> (Inr (), w\<lparr>memory_json := Some text\<rparr>)
      | WriteRejected left \<Rightarrow> (Inl StorageError, w\<lparr>memory_json := left\<rparr>))\<close>

definition newMemory :: "string \<Rightarrow> string \<Rightarrow> string \<Rightarrow> jsval" where
  \<open>newMemory memory argMessage response =
     JObject [(''memory'', JString memory),
              (''lastUserMessage'', JString argMessage),
              (''lastAssistantResponse'', JString response)]\<close>

text \<open>The statements of the module, in order.  Nothing catches, so the first rejection
  ends the run with the error, and the statements after it are not reached.\<close>

definition run :: "env \<Rightarrow> string list \<Rightarrow> world \<Rightarrow> (error + unit) \<times> world" where
  \<open>run en args w =
     (let argMessage = join_text '' '' args;
          memory = readMemory w;
          (r, w1) = assist en argMessage memory w
      in case r of
           Inl e \<Rightarrow> (Inl e, w1)
         | Inr response \<Rightarrow>
             (let w2 = console_log [response] w1;
                  (r', w3) = optimizeMemory en
                               (JSON_stringify (newMemory memory argMessage response)) w2
              in case r' of
                   Inl e \<Rightarrow> (Inl e, w3)
                 | Inr optimizedMemory \<Rightarrow>
                     writeTextFile en optimizedMemory
                       (console_log [[CHR 0x1B] @ ''[34m'', optimizedMemory] w3)))\<close>

text \<open>Deno ends a process whose module rejects with status 1, and with 0 otherwise.\<close>

definition exit_status :: "(error + unit) \<Rightarrow> nat" where
  \<open>exit_status r = (case r of Inl e \<Rightarrow> 1 | Inr u \<Rightarrow> 0)\<close>

section \<open>Names for what the statements below talk about\<close>

text \<open>What \<^const>\<open>callGPTAPI\<close> makes of the outcome of \<^verbatim>\<open>fetch\<close>, and the outcome of the
  \<^verbatim>\<open>fetch\<close> that \<^const>\<open>sendSnippet\<close> causes when it is called with a command: the error of
  the join when that throws and nothing is sent, the answer to the request otherwise.\<close>

definition answer_of :: "env \<Rightarrow> fetch_result \<Rightarrow> error + jsval" where
  \<open>answer_of en res =
     (case res of
        Rejected \<Rightarrow> Inl NetworkError
      | Response status text \<Rightarrow>
          (case JSON_parse en text of
             None \<Rightarrow> Inl SyntaxError
           | Some response \<Rightarrow>
               then_get (then_get (then_get (get_prop response P_choices) P_0)
                 P_message) P_content))\<close>

definition fetched :: "env \<Rightarrow> string \<Rightarrow> world \<Rightarrow> error + fetch_result" where
  \<open>fetched en command w =
     (case join nl (history w @ [JString command]) of
        Inl e \<Rightarrow> Inl e
      | Inr prompt \<Rightarrow> Inr (provider en (length (sent w)) (make_request en prompt)))\<close>

text \<open>A provider that gives the same reply text to every request.\<close>

definition always_replies :: "env \<Rightarrow> string \<Rightarrow> bool" where
  \<open>always_replies en s \<longleftrightarrow> (\<forall>n req. answer_of en (provider en n req) = Inr (JString s))\<close>

section \<open>Scenarios\<close>

text \<open>Response bodies as the provider sends them, each with the value \<^verbatim>\<open>JSON.parse\<close> gives
  for it.  A text that is not in the list stands for a body that is not JSON.\<close>

definition reply_body :: "string \<Rightarrow> string" where
  \<open>reply_body s =
     ''{"choices":[{"message":{"role":"assistant","content":"'' @ s @ ''"}}]}''\<close>

definition reply_value :: "string \<Rightarrow> jsval" where
  \<open>reply_value s =
     JObject [(''choices'', JArray [JObject [(''message'',
       JObject [(''role'', JString ''assistant''), (''content'', JString s)])]])]\<close>

definition gateway_body :: string where
  \<open>gateway_body = ''<html><body>502 Bad Gateway</body></html>''\<close>

definition error_body :: string where
  \<open>error_body = ''{"error":{"message":"Rate limit reached"}}''\<close>

definition no_candidates_body :: string where
  \<open>no_candidates_body = ''{"choices":[]}''\<close>

definition no_message_body :: string where
  \<open>no_message_body = ''{"choices":[{"index":0}]}''\<close>

definition no_content_body :: string where
  \<open>no_content_body = ''{"choices":[{"message":{"role":"assistant"}}]}''\<close>

definition known_bodies :: "(string \<times> jsval) list" where
  \<open>known_bodies =
     [(reply_body ''Hi there'', reply_value ''Hi there''),
      (reply_body ''  Hi there '', reply_value ''  Hi there ''),
      (error_body,
         JObject [(''error'', JObject [(''message'', JString ''Rate limit reached'')])]),
      (no_candidates_body, JObject [(''choices'', JArray [])]),
      (no_message_body, JObject [(''choices'', JArray [JObject [(''index'', JNumber ''0'')]])]),
      (no_content_body,
         JObject [(''choices'', JArray [JObject [(''message'',
           JObject [(''role'', JString ''assistant'')])]])])]\<close>

text \<open>An environment whose provider answers the requests of a process from a script, in
  order, and rejects once the script is used up.\<close>

definition scripted ::
    "fetch_result list \<Rightarrow> (string option \<Rightarrow> string \<Rightarrow> write_result) \<Rightarrow> env" where
  \<open>scripted answers disk =
     \<lparr>OPENAI_API_KEY = Some ''sk-test'',
      provider = (\<lambda>n req. if n < length answers then answers ! n else Rejected),
      JSON_parse = map_of known_bodies,
      storage = disk\<rparr>\<close>

definition accepting :: "string option \<Rightarrow> string \<Rightarrow> write_result" where
  \<open>accepting old text = Written\<close>

text \<open>A disk that runs full once the file has been opened for writing.\<close>

definition truncating :: "string option \<Rightarrow> string \<Rightarrow> write_result" where
  \<open>truncating old text = WriteRejected (Some [])\<close>

definition hi_env :: env where
  \<open>hi_env =
     \<lparr>OPENAI_API_KEY = Some ''sk-test'',
      provider = (\<lambda>n req. Response 200 (reply_body ''Hi there'')),
      JSON_parse = map_of known_bodies,
      storage = accepting\<rparr>\<close>

text \<open>The provider answers the first request and is out of reach for the second.\<close>

definition distill_fails_env :: env where
  \<open>distill_fails_env = scripted [Response 200 (reply_body ''Hi there'')] accepting\<close>

text \<open>The provider answers both requests, and the write of the file is rejected.\<close>

definition save_fails_env :: env where
  \<open>save_fails_env =
     scripted [Response 200 (reply_body ''Hi there''), Response 200 (reply_body ''Hi there'')]
       truncating\<close>

text \<open>Texts with quotation marks in them: a stored memory, the candidate blob of the first
  scenario, and the blob it would be if the default memory were \<^verbatim>\<open>{}\<close>.\<close>

definition felix_memory :: string where
  \<open>felix_memory = ''{"name":"Felix"}''\<close>

definition hello_blob :: string where
  \<open>hello_blob =
     ''{"memory":"{history:[]}","lastUserMessage":"Hello","lastAssistantResponse":"Hi there"}''\<close>

definition hello_blob_braces :: string where
  \<open>hello_blob_braces =
     ''{"memory":"{}","lastUserMessage":"Hello","lastAssistantResponse":"Hi there"}''\<close>

definition cut_off_memory :: string where
  \<open>cut_off_memory = ''{"name":"Fel''\<close>

section \<open>What the functions do, step by step\<close>

lemma start_simps [simp]:
  "history (start file) = []" "memory_json (start file) = file"
  "stdout (start file) = []" "sent (start file) = []"
  by (simp_all add: start_def)

lemma prod_from_fst: "fst p = a \<Longrightarrow> p = (a, snd p)"
  by (cases p) simp

lemma first_throw_append:
  "first_throw (rs @ rs') =
     (case first_throw rs of
        Inl e \<Rightarrow> Inl e
      | Inr xs \<Rightarrow> (case first_throw rs' of Inl e \<Rightarrow> Inl e | Inr xs' \<Rightarrow> Inr (xs @ xs')))"
  by (induction rs rule: first_throw.induct) (auto split: sum.split)

lemma first_throw_length: "first_throw rs = Inr xs \<Longrightarrow> length xs = length rs"
  by (induction rs arbitrary: xs rule: first_throw.induct) (auto split: sum.splits)

lemma join_text_snoc: "texts \<noteq> [] \<Longrightarrow> join_text sep (texts @ [t]) = join_text sep texts @ sep @ t"
  by (induction sep texts rule: join_text.induct) auto

lemma join_strings [simp]:
  "join sep [JString a] = Inr a"
  "join sep [JString a, JString b] = Inr (a @ sep @ b)"
  "join sep [JString a, JString b, JString c] = Inr (a @ sep @ b @ sep @ c)"
  by (simp_all add: join_def element_text_def)

lemma join_snoc:
  assumes "join sep xs = Inr p" and "xs \<noteq> []"
  shows "join sep (xs @ [JString b]) = Inr (p @ sep @ b)"
proof -
  from assms(1) obtain texts where
    t: "first_throw (map element_text xs) = Inr texts" and p: "p = join_text sep texts"
    by (auto simp: join_def split: sum.splits)
  from first_throw_length [OF t] assms(2) have "texts \<noteq> []" by auto
  then show ?thesis
    by (simp add: join_def first_throw_append t p element_text_def join_text_snoc)
qed

lemma join_snoc2:
  assumes "join sep (xs @ [JString a]) = Inr p"
  shows "join sep (xs @ [JString a, JString b]) = Inr (p @ sep @ b)"
    and "join sep (xs @ [JString a, JString b, JString c]) = Inr (p @ sep @ b @ sep @ c)"
proof -
  have 1: "join sep ((xs @ [JString a]) @ [JString b]) = Inr (p @ sep @ b)"
    by (rule join_snoc [OF assms]) simp
  then show "join sep (xs @ [JString a, JString b]) = Inr (p @ sep @ b)" by simp
  have "join sep (((xs @ [JString a]) @ [JString b]) @ [JString c]) = Inr ((p @ sep @ b) @ sep @ c)"
    by (rule join_snoc [OF 1]) simp
  then show "join sep (xs @ [JString a, JString b, JString c]) = Inr (p @ sep @ b @ sep @ c)"
    by simp
qed

lemma callGPTAPI_eq:
  "callGPTAPI en prompt w =
     (answer_of en (provider en (length (sent w)) (make_request en prompt)),
      w\<lparr>sent := sent w @ [make_request en prompt]\<rparr>)"
  by (simp add: callGPTAPI_def answer_of_def Let_def split: fetch_result.split option.split)

lemma sendSnippet_eq:
  "sendSnippet en command w =
     (case join nl (history w @ [JString command]) of
        Inl e \<Rightarrow> (Inl e, w\<lparr>history := history w @ [JString command]\<rparr>)
      | Inr prompt \<Rightarrow>
          (case answer_of en (provider en (length (sent w)) (make_request en prompt)) of
             Inl e \<Rightarrow> (Inl e, w\<lparr>history := history w @ [JString command],
                               sent := sent w @ [make_request en prompt]\<rparr>)
           | Inr answer \<Rightarrow> (call_trim answer,
                            w\<lparr>history := history w @ [JString command, answer],
                              sent := sent w @ [make_request en prompt]\<rparr>)))"
  by (simp add: sendSnippet_def callGPTAPI_eq Let_def split: sum.split)

lemma sendSnippet_fst:
  "fst (sendSnippet en command w) =
     (case fetched en command w of
        Inl e \<Rightarrow> Inl e
      | Inr res \<Rightarrow> (case answer_of en res of Inl e \<Rightarrow> Inl e | Inr answer \<Rightarrow> call_trim answer))"
  by (simp add: sendSnippet_eq fetched_def split: sum.split)

lemma sendSnippet_keeps:
  "memory_json (snd (sendSnippet en command w)) = memory_json w"
  "stdout (snd (sendSnippet en command w)) = stdout w"
  by (simp_all add: sendSnippet_eq split: sum.split)

lemma sendSnippet_sent:
  "join nl (history w @ [JString command]) = Inr prompt \<Longrightarrow>
     sent (snd (sendSnippet en command w)) = sent w @ [make_request en prompt]"
  by (simp add: sendSnippet_eq split: sum.split)

lemma sendSnippet_sent_le:
  "length (sent (snd (sendSnippet en command w))) \<le> Suc (length (sent w))"
  by (simp add: sendSnippet_eq split: sum.split)

lemma sendSnippet_sent_prefix:
  "\<exists>rest. sent (snd (sendSnippet en command w)) = sent w @ rest"
  by (simp add: sendSnippet_eq split: sum.split)

lemma call_trim_Inr: "call_trim a = Inr r \<Longrightarrow> \<exists>s. a = JString s \<and> r = trim s"
  by (cases a) simp_all

lemma sendSnippet_Inr:
  assumes "sendSnippet en command w = (Inr r, w')"
  shows "\<exists>prompt s. join nl (history w @ [JString command]) = Inr prompt
    \<and> answer_of en (provider en (length (sent w)) (make_request en prompt)) = Inr (JString s)
    \<and> r = trim s
    \<and> w' = w\<lparr>history := history w @ [JString command, JString s],
             sent := sent w @ [make_request en prompt]\<rparr>"
  using assms by (auto simp: sendSnippet_eq split: sum.splits dest: call_trim_Inr)

lemma sendSnippet_replied:
  assumes "join nl (history w @ [JString command]) = Inr prompt"
      and "answer_of en (provider en (length (sent w)) (make_request en prompt)) = Inr (JString s)"
  shows "sendSnippet en command w =
     (Inr (trim s),
      w\<lparr>history := history w @ [JString command, JString s],
        sent := sent w @ [make_request en prompt]\<rparr>)"
  by (simp add: sendSnippet_eq assms)

lemma answer_of_Inr:
  assumes "answer_of en res = Inr v"
  shows "\<exists>status raw response. res = Response status raw \<and> JSON_parse en raw = Some response
     \<and> then_get (then_get (then_get (get_prop response P_choices) P_0) P_message) P_content = Inr v"
  using assms by (auto simp: answer_of_def split: fetch_result.splits option.splits)

lemma optimizeMemory_eq:
  "optimizeMemory en blob w =
     (case sendSnippet en (optimizeMemory_prompt blob) w of
        (Inl e, w') \<Rightarrow> (Inl e, w')
      | (Inr response, w') \<Rightarrow> (Inr (trim response), w'))"
  by (simp add: optimizeMemory_def split: prod.split sum.split)

lemma optimizeMemory_snd:
  "snd (optimizeMemory en blob w) = snd (sendSnippet en (optimizeMemory_prompt blob) w)"
  by (simp add: optimizeMemory_eq split: prod.split sum.split)

lemma optimizeMemory_fst:
  "fst (optimizeMemory en blob w) =
     (case fst (sendSnippet en (optimizeMemory_prompt blob) w) of
        Inl e \<Rightarrow> Inl e
      | Inr response \<Rightarrow> Inr (trim response))"
  by (simp add: optimizeMemory_eq split: prod.split sum.split)

lemma optimizeMemory_keeps:
  "memory_json (snd (optimizeMemory en blob w)) = memory_json w"
  "stdout (snd (optimizeMemory en blob w)) = stdout w"
  by (simp_all add: optimizeMemory_snd sendSnippet_keeps)

lemma optimizeMemory_sent:
  "join nl (history w @ [JString (optimizeMemory_prompt blob)]) = Inr prompt \<Longrightarrow>
     sent (snd (optimizeMemory en blob w)) = sent w @ [make_request en prompt]"
  by (simp add: optimizeMemory_snd sendSnippet_sent)

lemma optimizeMemory_rejected:
  "fetched en (optimizeMemory_prompt blob) w = Inr Rejected \<Longrightarrow>
     fst (optimizeMemory en blob w) = Inl NetworkError"
  by (simp add: optimizeMemory_fst sendSnippet_fst answer_of_def)

lemma optimizeMemory_replied:
  "fetched en (optimizeMemory_prompt blob) w = Inr res \<Longrightarrow>
   answer_of en res = Inr (JString s) \<Longrightarrow>
     fst (optimizeMemory en blob w) = Inr (trim (trim s))"
  by (simp add: optimizeMemory_fst sendSnippet_fst)

lemma console_log_simps [simp]:
  "history (console_log xs w) = history w"
  "memory_json (console_log xs w) = memory_json w"
  "stdout (console_log xs w) = stdout w @ [join_text '' '' xs]"
  "sent (console_log xs w) = sent w"
  by (simp_all add: console_log_def)

lemma writeTextFile_keeps:
  "history (snd (writeTextFile en text w)) = history w"
  "stdout (snd (writeTextFile en text w)) = stdout w"
  "sent (snd (writeTextFile en text w)) = sent w"
  by (simp_all add: writeTextFile_def split: write_result.split)

lemma run_after_reply:
  assumes "assist en (join_text '' '' args) (readMemory w) w = (Inr reply, w1)"
      and "optimizeMemory en
             (JSON_stringify (newMemory (readMemory w) (join_text '' '' args) reply))
             (console_log [reply] w1) = (r, w3)"
  shows "run en args w =
      (case r of Inl e \<Rightarrow> (Inl e, w3)
       | Inr distilled \<Rightarrow> writeTextFile en distilled
           (console_log [[CHR 0x1B] @ ''[34m'', distilled] w3))"
  using assms by (simp add: run_def)

lemma run_sent_first:
  "\<exists>rest. sent (snd (run en args (start file))) =
     make_request en (assist_prompt (join_text '' '' args) (readMemory (start file))) # rest"
proof (cases "assist en (join_text '' '' args) (readMemory (start file)) (start file)")
  case (Pair r w1)
  have w1: "sent w1 =
      [make_request en (assist_prompt (join_text '' '' args) (readMemory (start file)))]"
    using Pair
      sendSnippet_sent [of "start file"
        "assist_prompt (join_text '' '' args) (readMemory (start file))" _ en]
    by (simp add: assist_def)
  show ?thesis
  proof (cases r)
    case (Inl e)
    with Pair have "run en args (start file) = (Inl e, w1)" by (simp add: run_def)
    with w1 show ?thesis by simp
  next
    case (Inr reply)
    obtain r' w3 where o: "optimizeMemory en
             (JSON_stringify (newMemory (readMemory (start file)) (join_text '' '' args) reply))
             (console_log [reply] w1) = (r', w3)"
      by (cases "optimizeMemory en
             (JSON_stringify (newMemory (readMemory (start file)) (join_text '' '' args) reply))
             (console_log [reply] w1)")
    have "\<exists>rest. sent (snd (optimizeMemory en
             (JSON_stringify (newMemory (readMemory (start file)) (join_text '' '' args) reply))
             (console_log [reply] w1))) = sent (console_log [reply] w1) @ rest"
      unfolding optimizeMemory_snd by (rule sendSnippet_sent_prefix)
    then have w3: "\<exists>rest. sent w3 = sent w1 @ rest"
      unfolding o by simp
    have "\<exists>rest. sent (snd (run en args (start file))) = sent w3 @ rest"
      using Pair Inr o by (simp add: run_def writeTextFile_keeps split: sum.split)
    with w3 w1 show ?thesis by auto
  qed
qed

section \<open>Trimming\<close>

text \<open>The model of \<^verbatim>\<open>trim\<close> takes white space off both ends and nothing else, and a
  second trim changes nothing.\<close>

lemma trim_parts:
  "\<exists>l r. s = l @ trim s @ r \<and> list_all is_white l \<and> list_all is_white r"
proof -
  define d where "d = dropWhile is_white s"
  have 1: "s = takeWhile is_white s @ d"
    by (simp add: d_def)
  have "trim s @ rev (takeWhile is_white (rev d)) =
          rev (takeWhile is_white (rev d) @ dropWhile is_white (rev d))"
    by (simp only: rev_append trim_def d_def)
  also have "\<dots> = rev (rev d)"
    by (simp only: takeWhile_dropWhile_id)
  finally have 2: "d = trim s @ rev (takeWhile is_white (rev d))"
    by simp
  have 3: "list_all is_white (takeWhile is_white s)"
    by (simp add: list_all_iff) (meson set_takeWhileD)
  have 4: "list_all is_white (rev (takeWhile is_white (rev d)))"
    by (simp add: list_all_iff) (meson set_takeWhileD)
  from 1 2 have "s = takeWhile is_white s @ trim s @ rev (takeWhile is_white (rev d))"
    by simp
  with 3 4 show ?thesis by blast
qed

lemma trim_ends:
  assumes "trim s \<noteq> []"
  shows "\<not> is_white (hd (trim s))" "\<not> is_white (last (trim s))"
proof -
  define d where "d = dropWhile is_white s"
  define e where "e = dropWhile is_white (rev d)"
  have t: "trim s = rev e" by (simp add: trim_def d_def e_def)
  with assms have e: "e \<noteq> []" by simp
  then have "\<not> is_white (hd e)"
    unfolding e_def by (rule hd_dropWhile)
  with e show "\<not> is_white (last (trim s))"
    by (simp add: t last_rev)
  from e have d: "d \<noteq> []" by (auto simp: e_def)
  then have hd: "\<not> is_white (hd d)"
    unfolding d_def by (rule hd_dropWhile)
  have "\<exists>ys. rev d = ys @ e"
    unfolding e_def by (metis takeWhile_dropWhile_id)
  then obtain ys where "rev d = ys @ e" ..
  with e have "last e = last (rev d)" by simp
  also have "\<dots> = hd d" using d by (simp add: last_rev)
  finally show "\<not> is_white (hd (trim s))"
    using hd e by (simp add: t hd_rev)
qed

lemma dropWhile_keeps: "xs \<noteq> [] \<Longrightarrow> \<not> P (hd xs) \<Longrightarrow> dropWhile P xs = xs"
  by (cases xs) simp_all

lemma trim_trim: "trim (trim s) = trim s"
proof (cases "trim s = []")
  case True
  have "trim [] = []" by (simp add: trim_def)
  with True show ?thesis by metis
next
  case False
  from trim_ends [OF False]
  have h: "\<not> is_white (hd (trim s))" and l: "\<not> is_white (last (trim s))" .
  from False h have 1: "dropWhile is_white (trim s) = trim s"
    by (rule dropWhile_keeps)
  from False l have 2: "dropWhile is_white (rev (trim s)) = rev (trim s)"
    by (intro dropWhile_keeps) (simp_all add: hd_rev)
  show ?thesis
    unfolding trim_def [of "trim s"] 1 2 by simp
qed

section \<open>The scenarios, step by step\<close>

lemma scripted_simps [simp]:
  "provider (scripted answers disk) n req = (if n < length answers then answers ! n else Rejected)"
  "JSON_parse (scripted answers disk) = map_of known_bodies"
  "storage (scripted answers disk) = disk"
  by (simp_all add: scripted_def)

lemma fetched_scripted:
  "join nl (history w @ [JString command]) = Inr prompt \<Longrightarrow>
   fetched (scripted answers disk) command w =
     Inr (if length (sent w) < length answers then answers ! length (sent w) else Rejected)"
  by (simp add: fetched_def)

lemma fetched_first: "fetched (scripted [answer] disk) command (start file) = Inr answer"
  by (simp add: fetched_def)

lemma parse_hi: "map_of known_bodies (reply_body ''Hi there'') = Some (reply_value ''Hi there'')"
  by (simp add: known_bodies_def)

lemma parse_known:
  "map_of known_bodies gateway_body = None"
  "map_of known_bodies error_body =
     Some (JObject [(''error'', JObject [(''message'', JString ''Rate limit reached'')])])"
  "map_of known_bodies no_candidates_body = Some (JObject [(''choices'', JArray [])])"
  "map_of known_bodies no_message_body =
     Some (JObject [(''choices'', JArray [JObject [(''index'', JNumber ''0'')]])])"
  "map_of known_bodies no_content_body =
     Some (JObject [(''choices'', JArray [JObject [(''message'',
           JObject [(''role'', JString ''assistant'')])]])])"
  by (simp_all add: known_bodies_def reply_body_def gateway_body_def error_body_def
        no_candidates_body_def no_message_body_def no_content_body_def)

lemma answer_of_reply:
  "JSON_parse en (reply_body s) = Some (reply_value s) \<Longrightarrow>
     answer_of en (Response status (reply_body s)) = Inr (JString s)"
  by (simp add: answer_of_def reply_value_def then_get_def)

lemma trim_hi: "trim ''Hi there'' = ''Hi there''"
  by (simp add: trim_def is_white_def)

lemma hi_always: "always_replies hi_env ''Hi there''"
  by (simp add: always_replies_def hi_env_def answer_of_reply parse_hi)

lemma always_replies_answer:
  "always_replies en s \<Longrightarrow> answer_of en (provider en n req) = Inr (JString s)"
  by (simp add: always_replies_def)

lemma scripted_assist:
  "assist (scripted (Response status (reply_body ''Hi there'') # later) disk) message memory
       (start file) =
     (Inr ''Hi there'',
      (start file)\<lparr>history := [JString (assist_prompt message memory), JString ''Hi there''],
        sent := [make_request (scripted (Response status (reply_body ''Hi there'') # later) disk)
                   (assist_prompt message memory)]\<rparr>)"
proof -
  let ?en = "scripted (Response status (reply_body ''Hi there'') # later) disk"
  have j: "join nl (history (start file) @ [JString (assist_prompt message memory)]) =
      Inr (assist_prompt message memory)"
    by simp
  have "answer_of ?en (provider ?en (length (sent (start file)))
          (make_request ?en (assist_prompt message memory))) = Inr (JString ''Hi there'')"
    by (simp add: answer_of_reply parse_hi)
  from sendSnippet_replied [OF j this] show ?thesis
    by (simp add: assist_def trim_hi)
qed

lemma hello_run:
  assumes "always_replies en ''Hi there''"
  shows "stdout (snd (run en [''Hello''] (start None))) =
           [''Hi there'', [CHR 0x1B] @ ''[34m Hi there'']"
    and "history (snd (run en [''Hello''] (start None))) =
           [JString (assist_prompt ''Hello'' ''{history:[]}''), JString ''Hi there'',
            JString (optimizeMemory_prompt
              (JSON_stringify (newMemory ''{history:[]}'' ''Hello'' ''Hi there''))),
            JString ''Hi there'']"
    and "fst (run en [''Hello''] (start None)) =
           (case storage en None ''Hi there'' of Written \<Rightarrow> Inr () | WriteRejected left \<Rightarrow> Inl StorageError)"
    and "memory_json (snd (run en [''Hello''] (start None))) =
           (case storage en None ''Hi there'' of Written \<Rightarrow> Some ''Hi there'' | WriteRejected left \<Rightarrow> left)"
proof -
  note s = always_replies_answer [OF assms]
  have run: "run en [''Hello''] (start None) =
      writeTextFile en ''Hi there''
        \<lparr>history = [JString (assist_prompt ''Hello'' ''{history:[]}''), JString ''Hi there'',
            JString (optimizeMemory_prompt
              (JSON_stringify (newMemory ''{history:[]}'' ''Hello'' ''Hi there''))),
            JString ''Hi there''],
         memory_json = None,
         stdout = [''Hi there'', [CHR 0x1B] @ ''[34m Hi there''],
         sent = [make_request en (assist_prompt ''Hello'' ''{history:[]}''),
                 make_request en
                   (assist_prompt ''Hello'' ''{history:[]}'' @ nl @ ''Hi there'' @ nl @
                    optimizeMemory_prompt
                      (JSON_stringify (newMemory ''{history:[]}'' ''Hello'' ''Hi there'')))]\<rparr>"
    by (simp add: run_def assist_def optimizeMemory_eq sendSnippet_eq s trim_hi readMemory_def
          console_log_def start_def Let_def)
  show "stdout (snd (run en [''Hello''] (start None))) =
           [''Hi there'', [CHR 0x1B] @ ''[34m Hi there'']"
    by (subst run) (simp add: writeTextFile_def split: write_result.split)
  show "history (snd (run en [''Hello''] (start None))) =
           [JString (assist_prompt ''Hello'' ''{history:[]}''), JString ''Hi there'',
            JString (optimizeMemory_prompt
              (JSON_stringify (newMemory ''{history:[]}'' ''Hello'' ''Hi there''))),
            JString ''Hi there'']"
    by (subst run) (simp add: writeTextFile_def split: write_result.split)
  show "fst (run en [''Hello''] (start None)) =
           (case storage en None ''Hi there'' of Written \<Rightarrow> Inr () | WriteRejected left \<Rightarrow> Inl StorageError)"
    by (subst run) (simp add: writeTextFile_def split: write_result.split)
  show "memory_json (snd (run en [''Hello''] (start None))) =
           (case storage en None ''Hi there'' of Written \<Rightarrow> Some ''Hi there'' | WriteRejected left \<Rightarrow> left)"
    by (subst run) (simp add: writeTextFile_def split: write_result.split)
qed

lemma stringify_hello:
  "JSON_stringify (newMemory ''{history:[]}'' ''Hello'' ''Hi there'') = hello_blob"
  by (simp add: newMemory_def QuoteJSONString_def escape_unit_def hello_blob_def)

lemma stringify_hello_braces:
  "JSON_stringify (newMemory ''{}'' ''Hello'' ''Hi there'') = hello_blob_braces"
  by (simp add: newMemory_def QuoteJSONString_def escape_unit_def hello_blob_braces_def)

lemma distill_fails_steps:
  "assist distill_fails_env (join_text '' '' [''Hello'']) (readMemory (start (Some ''{}'')))
       (start (Some ''{}'')) =
     (Inr ''Hi there'',
      snd (assist distill_fails_env (join_text '' '' [''Hello''])
             (readMemory (start (Some ''{}''))) (start (Some ''{}''))))"
  "optimizeMemory distill_fails_env
       (JSON_stringify (newMemory (readMemory (start (Some ''{}'')))
          (join_text '' '' [''Hello'']) ''Hi there''))
       (console_log [''Hi there'']
          (snd (assist distill_fails_env (join_text '' '' [''Hello''])
             (readMemory (start (Some ''{}''))) (start (Some ''{}''))))) =
     (Inl NetworkError,
      snd (optimizeMemory distill_fails_env
       (JSON_stringify (newMemory (readMemory (start (Some ''{}'')))
          (join_text '' '' [''Hello'']) ''Hi there''))
       (console_log [''Hi there'']
          (snd (assist distill_fails_env (join_text '' '' [''Hello''])
             (readMemory (start (Some ''{}''))) (start (Some ''{}'')))))))"
proof -
  show "assist distill_fails_env (join_text '' '' [''Hello'']) (readMemory (start (Some ''{}'')))
       (start (Some ''{}'')) =
     (Inr ''Hi there'',
      snd (assist distill_fails_env (join_text '' '' [''Hello''])
             (readMemory (start (Some ''{}''))) (start (Some ''{}''))))"
    by (rule prod_from_fst) (simp add: distill_fails_env_def scripted_assist)
  show "optimizeMemory distill_fails_env
       (JSON_stringify (newMemory (readMemory (start (Some ''{}'')))
          (join_text '' '' [''Hello'']) ''Hi there''))
       (console_log [''Hi there'']
          (snd (assist distill_fails_env (join_text '' '' [''Hello''])
             (readMemory (start (Some ''{}''))) (start (Some ''{}''))))) =
     (Inl NetworkError,
      snd (optimizeMemory distill_fails_env
       (JSON_stringify (newMemory (readMemory (start (Some ''{}'')))
          (join_text '' '' [''Hello'']) ''Hi there''))
       (console_log [''Hi there'']
          (snd (assist distill_fails_env (join_text '' '' [''Hello''])
             (readMemory (start (Some ''{}''))) (start (Some ''{}'')))))))"
    by (rule prod_from_fst, rule optimizeMemory_rejected)
       (simp add: distill_fails_env_def fetched_def scripted_assist)
qed

lemma save_fails_steps:
  "assist save_fails_env (join_text '' '' [''Hello'']) (readMemory (start (Some ''{}'')))
       (start (Some ''{}'')) =
     (Inr ''Hi there'',
      snd (assist save_fails_env (join_text '' '' [''Hello''])
             (readMemory (start (Some ''{}''))) (start (Some ''{}''))))"
  "optimizeMemory save_fails_env
       (JSON_stringify (newMemory (readMemory (start (Some ''{}'')))
          (join_text '' '' [''Hello'']) ''Hi there''))
       (console_log [''Hi there'']
          (snd (assist save_fails_env (join_text '' '' [''Hello''])
             (readMemory (start (Some ''{}''))) (start (Some ''{}''))))) =
     (Inr ''Hi there'',
      snd (optimizeMemory save_fails_env
       (JSON_stringify (newMemory (readMemory (start (Some ''{}'')))
          (join_text '' '' [''Hello'']) ''Hi there''))
       (console_log [''Hi there'']
          (snd (assist save_fails_env (join_text '' '' [''Hello''])
             (readMemory (start (Some ''{}''))) (start (Some ''{}'')))))))"
  "storage save_fails_env (memory_json (start (Some ''{}''))) ''Hi there'' = WriteRejected (Some [])"
proof -
  show "assist save_fails_env (join_text '' '' [''Hello'']) (readMemory (start (Some ''{}'')))
       (start (Some ''{}'')) =
     (Inr ''Hi there'',
      snd (assist save_fails_env (join_text '' '' [''Hello''])
             (readMemory (start (Some ''{}''))) (start (Some ''{}''))))"
    by (rule prod_from_fst) (simp add: save_fails_env_def scripted_assist)
  have "fst (optimizeMemory save_fails_env
       (JSON_stringify (newMemory (readMemory (start (Some ''{}'')))
          (join_text '' '' [''Hello'']) ''Hi there''))
       (console_log [''Hi there'']
          (snd (assist save_fails_env (join_text '' '' [''Hello''])
             (readMemory (start (Some ''{}''))) (start (Some ''{}'')))))) =
       Inr (trim (trim ''Hi there''))"
    by (rule optimizeMemory_replied [where res = "Response 200 (reply_body ''Hi there'')"])
       (simp_all add: save_fails_env_def fetched_def scripted_assist answer_of_reply parse_hi)
  then show "optimizeMemory save_fails_env
       (JSON_stringify (newMemory (readMemory (start (Some ''{}'')))
          (join_text '' '' [''Hello'']) ''Hi there''))
       (console_log [''Hi there'']
          (snd (assist save_fails_env (join_text '' '' [''Hello''])
             (readMemory (start (Some ''{}''))) (start (Some ''{}''))))) =
     (Inr ''Hi there'',
      snd (optimizeMemory save_fails_env
       (JSON_stringify (newMemory (readMemory (start (Some ''{}'')))
          (join_text '' '' [''Hello'']) ''Hi there''))
       (console_log [''Hi there'']
          (snd (assist save_fails_env (join_text '' '' [''Hello''])
             (readMemory (start (Some ''{}''))) (start (Some ''{}'')))))))"
    by (intro prod_from_fst) (simp add: trim_hi)
  show "storage save_fails_env (memory_json (start (Some ''{}''))) ''Hi there'' = WriteRejected (Some [])"
    by (simp add: save_fails_env_def truncating_def)
qed

section \<open>The completion call\<close>

text \<open>\<^bold>\<open>C3\<close>, as the code has it.  Each of these makes the call fail with an error of its own,
  returned in place of a reply: \<^verbatim>\<open>fetch\<close> rejects (\<^const>\<open>NetworkError\<close>); the body is not JSON
  (\<^const>\<open>SyntaxError\<close>); the parsed object has no \<^verbatim>\<open>choices\<close>; \<^verbatim>\<open>choices\<close> is an empty
  list; the first candidate has no \<^verbatim>\<open>message\<close>; the message has no \<^verbatim>\<open>content\<close>.  The
  last four are type errors that name the property whose read failed.  The status of the
  response is never looked at: two responses with the same body, parsed alike, give the
  same result, whatever their statuses.  And the call returns a reply in one case alone:
  \<^verbatim>\<open>fetch\<close> resolves, the body parses, and \<^verbatim>\<open>choices[0].message.content\<close> of the parsed
  value is a string, the reply being that string trimmed.\<close>

theorem completion_failure_modes:
  "(fetched en command w = Inr Rejected \<longrightarrow>
      fst (sendSnippet en command w) = Inl NetworkError)
 \<and> (fetched en command w = Inr (Response status raw) \<and> JSON_parse en raw = None \<longrightarrow>
      fst (sendSnippet en command w) = Inl SyntaxError)
 \<and> (fetched en command w = Inr (Response status raw) \<and> JSON_parse en raw = Some (JObject kvs)
      \<and> map_of kvs ''choices'' = None \<longrightarrow>
      fst (sendSnippet en command w) = Inl (TypeError_read ''0''))
 \<and> (fetched en command w = Inr (Response status raw) \<and> JSON_parse en raw = Some (JObject kvs)
      \<and> map_of kvs ''choices'' = Some (JArray []) \<longrightarrow>
      fst (sendSnippet en command w) = Inl (TypeError_read ''message''))
 \<and> (fetched en command w = Inr (Response status raw) \<and> JSON_parse en raw = Some (JObject kvs)
      \<and> map_of kvs ''choices'' = Some (JArray (candidate # others))
      \<and> get_prop candidate P_message = Inr JUndefined \<longrightarrow>
      fst (sendSnippet en command w) = Inl (TypeError_read ''content''))
 \<and> (fetched en command w = Inr (Response status raw) \<and> JSON_parse en raw = Some (JObject kvs)
      \<and> map_of kvs ''choices'' = Some (JArray (candidate # others))
      \<and> get_prop candidate P_message = Inr message
      \<and> get_prop message P_content = Inr JUndefined \<longrightarrow>
      fst (sendSnippet en command w) = Inl (TypeError_read ''trim''))
 \<and> (fetched en command w = Inr (Response status raw)
      \<and> fetched en' command w = Inr (Response status' raw)
      \<and> JSON_parse en' = JSON_parse en \<longrightarrow>
      fst (sendSnippet en' command w) = fst (sendSnippet en command w))
 \<and> (fst (sendSnippet en command w) = Inr r \<longleftrightarrow>
      (\<exists>status raw response s.
          fetched en command w = Inr (Response status raw)
        \<and> JSON_parse en raw = Some response
        \<and> then_get (then_get (then_get (get_prop response P_choices) P_0) P_message) P_content
            = Inr (JString s)
        \<and> r = trim s))"
proof -
  have iff: "fst (sendSnippet en command w) = Inr r \<longleftrightarrow>
      (\<exists>status raw response s.
          fetched en command w = Inr (Response status raw)
        \<and> JSON_parse en raw = Some response
        \<and> then_get (then_get (then_get (get_prop response P_choices) P_0) P_message) P_content
            = Inr (JString s)
        \<and> r = trim s)" (is "?L \<longleftrightarrow> ?R")
  proof
    assume ?L
    then obtain res answer where
      f: "fetched en command w = Inr res" and a: "answer_of en res = Inr answer"
      and t: "call_trim answer = Inr r"
      by (auto simp: sendSnippet_fst split: sum.splits)
    from call_trim_Inr [OF t] obtain s where s: "answer = JString s" "r = trim s" by blast
    from answer_of_Inr [OF a] f s show ?R by blast
  next
    assume ?R
    then show ?L by (auto simp: sendSnippet_fst answer_of_def)
  qed
  have rest: "(fetched en command w = Inr Rejected \<longrightarrow>
      fst (sendSnippet en command w) = Inl NetworkError)
 \<and> (fetched en command w = Inr (Response status raw) \<and> JSON_parse en raw = None \<longrightarrow>
      fst (sendSnippet en command w) = Inl SyntaxError)
 \<and> (fetched en command w = Inr (Response status raw) \<and> JSON_parse en raw = Some (JObject kvs)
      \<and> map_of kvs ''choices'' = None \<longrightarrow>
      fst (sendSnippet en command w) = Inl (TypeError_read ''0''))
 \<and> (fetched en command w = Inr (Response status raw) \<and> JSON_parse en raw = Some (JObject kvs)
      \<and> map_of kvs ''choices'' = Some (JArray []) \<longrightarrow>
      fst (sendSnippet en command w) = Inl (TypeError_read ''message''))
 \<and> (fetched en command w = Inr (Response status raw) \<and> JSON_parse en raw = Some (JObject kvs)
      \<and> map_of kvs ''choices'' = Some (JArray (candidate # others))
      \<and> get_prop candidate P_message = Inr JUndefined \<longrightarrow>
      fst (sendSnippet en command w) = Inl (TypeError_read ''content''))
 \<and> (fetched en command w = Inr (Response status raw) \<and> JSON_parse en raw = Some (JObject kvs)
      \<and> map_of kvs ''choices'' = Some (JArray (candidate # others))
      \<and> get_prop candidate P_message = Inr message
      \<and> get_prop message P_content = Inr JUndefined \<longrightarrow>
      fst (sendSnippet en command w) = Inl (TypeError_read ''trim''))
 \<and> (fetched en command w = Inr (Response status raw)
      \<and> fetched en' command w = Inr (Response status' raw)
      \<and> JSON_parse en' = JSON_parse en \<longrightarrow>
      fst (sendSnippet en' command w) = fst (sendSnippet en command w))"
    by (simp add: sendSnippet_fst answer_of_def then_get_def)
  from rest iff show ?thesis by blast
qed

theorem completion_failure_modes_witness:
  "fst (sendSnippet (scripted [] accepting) ''Say hi'' (start None)) = Inl NetworkError
 \<and> fst (sendSnippet (scripted [Response 502 gateway_body] accepting) ''Say hi'' (start None))
      = Inl SyntaxError
 \<and> fst (sendSnippet (scripted [Response 429 error_body] accepting) ''Say hi'' (start None))
      = Inl (TypeError_read ''0'')
 \<and> fst (sendSnippet (scripted [Response 200 no_candidates_body] accepting) ''Say hi'' (start None))
      = Inl (TypeError_read ''message'')
 \<and> fst (sendSnippet (scripted [Response 200 no_message_body] accepting) ''Say hi'' (start None))
      = Inl (TypeError_read ''content'')
 \<and> fst (sendSnippet (scripted [Response 200 no_content_body] accepting) ''Say hi'' (start None))
      = Inl (TypeError_read ''trim'')
 \<and> fst (sendSnippet (scripted [Response 200 error_body] accepting) ''Say hi'' (start None))
      = fst (sendSnippet (scripted [Response 429 error_body] accepting) ''Say hi'' (start None))
 \<and> fst (sendSnippet (scripted [Response 200 (reply_body ''  Hi there '')] accepting) ''Say hi''
      (start None)) = Inr ''Hi there''"
proof -
  note T = completion_failure_modes
  have "fetched (scripted [] accepting) ''Say hi'' (start None) = Inr Rejected"
    by (simp add: fetched_def)
  with T [where en = "scripted [] accepting" and command = "''Say hi''" and w = "start None"]
  have 1: "fst (sendSnippet (scripted [] accepting) ''Say hi'' (start None)) = Inl NetworkError"
    by blast
  have "JSON_parse (scripted [Response 502 gateway_body] accepting) gateway_body = None"
    by (simp add: parse_known)
  with fetched_first [of "Response 502 gateway_body" accepting "''Say hi''" None]
    T [where en = "scripted [Response 502 gateway_body] accepting" and command = "''Say hi''"
       and w = "start None" and status = 502 and raw = gateway_body]
  have 2: "fst (sendSnippet (scripted [Response 502 gateway_body] accepting) ''Say hi''
              (start None)) = Inl SyntaxError"
    by blast
  have "JSON_parse (scripted [Response 429 error_body] accepting) error_body =
          Some (JObject [(''error'', JObject [(''message'', JString ''Rate limit reached'')])])"
       "map_of [(''error'', JObject [(''message'', JString ''Rate limit reached'')])] ''choices''
          = None"
    by (simp_all add: parse_known)
  with fetched_first [of "Response 429 error_body" accepting "''Say hi''" None]
    T [where en = "scripted [Response 429 error_body] accepting" and command = "''Say hi''"
       and w = "start None" and status = 429 and raw = error_body
       and kvs = "[(''error'', JObject [(''message'', JString ''Rate limit reached'')])]"]
  have 3: "fst (sendSnippet (scripted [Response 429 error_body] accepting) ''Say hi''
              (start None)) = Inl (TypeError_read ''0'')"
    by blast
  have "JSON_parse (scripted [Response 200 no_candidates_body] accepting) no_candidates_body =
          Some (JObject [(''choices'', JArray [])])"
       "map_of [(''choices'', JArray [])] ''choices'' = Some (JArray [])"
    by (simp_all add: parse_known)
  with fetched_first [of "Response 200 no_candidates_body" accepting "''Say hi''" None]
    T [where en = "scripted [Response 200 no_candidates_body] accepting"
       and command = "''Say hi''" and w = "start None" and status = 200
       and raw = no_candidates_body and kvs = "[(''choices'', JArray [])]"]
  have 4: "fst (sendSnippet (scripted [Response 200 no_candidates_body] accepting) ''Say hi''
              (start None)) = Inl (TypeError_read ''message'')"
    by blast
  have "JSON_parse (scripted [Response 200 no_message_body] accepting) no_message_body =
          Some (JObject [(''choices'', JArray [JObject [(''index'', JNumber ''0'')]])])"
       "map_of [(''choices'', JArray [JObject [(''index'', JNumber ''0'')]])] ''choices'' =
          Some (JArray (JObject [(''index'', JNumber ''0'')] # []))"
       "get_prop (JObject [(''index'', JNumber ''0'')]) P_message = Inr JUndefined"
    by (simp_all add: parse_known)
  with fetched_first [of "Response 200 no_message_body" accepting "''Say hi''" None]
    T [where en = "scripted [Response 200 no_message_body] accepting"
       and command = "''Say hi''" and w = "start None" and status = 200
       and raw = no_message_body
       and kvs = "[(''choices'', JArray [JObject [(''index'', JNumber ''0'')]])]"
       and candidate = "JObject [(''index'', JNumber ''0'')]" and others = "[]"]
  have 5: "fst (sendSnippet (scripted [Response 200 no_message_body] accepting) ''Say hi''
              (start None)) = Inl (TypeError_read ''content'')"
    by blast
  have "JSON_parse (scripted [Response 200 no_content_body] accepting) no_content_body =
          Some (JObject [(''choices'', JArray [JObject [(''message'',
           JObject [(''role'', JString ''assistant'')])]])])"
       "map_of [(''choices'', JArray [JObject [(''message'',
           JObject [(''role'', JString ''assistant'')])]])] ''choices'' =
          Some (JArray (JObject [(''message'', JObject [(''role'', JString ''assistant'')])] # []))"
       "get_prop (JObject [(''message'', JObject [(''role'', JString ''assistant'')])]) P_message
          = Inr (JObject [(''role'', JString ''assistant'')])"
       "get_prop (JObject [(''role'', JString ''assistant'')]) P_content = Inr JUndefined"
    by (simp_all add: parse_known)
  with fetched_first [of "Response 200 no_content_body" accepting "''Say hi''" None]
    T [where en = "scripted [Response 200 no_content_body] accepting"
       and command = "''Say hi''" and w = "start None" and status = 200
       and raw = no_content_body
       and kvs = "[(''choices'', JArray [JObject [(''message'',
           JObject [(''role'', JString ''assistant'')])]])]"
       and candidate = "JObject [(''message'', JObject [(''role'', JString ''assistant'')])]"
       and others = "[]" and message = "JObject [(''role'', JString ''assistant'')]"]
  have 6: "fst (sendSnippet (scripted [Response 200 no_content_body] accepting) ''Say hi''
              (start None)) = Inl (TypeError_read ''trim'')"
    by blast
  have "JSON_parse (scripted [Response 200 error_body] accepting) =
          JSON_parse (scripted [Response 429 error_body] accepting)"
    by simp
  with fetched_first [of "Response 429 error_body" accepting "''Say hi''" None]
    fetched_first [of "Response 200 error_body" accepting "''Say hi''" None]
    T [where en = "scripted [Response 429 error_body] accepting"
       and en' = "scripted [Response 200 error_body] accepting"
       and command = "''Say hi''" and w = "start None" and status = 429 and status' = 200
       and raw = error_body]
  have 7: "fst (sendSnippet (scripted [Response 200 error_body] accepting) ''Say hi'' (start None))
      = fst (sendSnippet (scripted [Response 429 error_body] accepting) ''Say hi'' (start None))"
    by blast
  have "JSON_parse (scripted [Response 200 (reply_body ''  Hi there '')] accepting)
          (reply_body ''  Hi there '') = Some (reply_value ''  Hi there '')"
       "then_get (then_get (then_get (get_prop (reply_value ''  Hi there '') P_choices) P_0)
          P_message) P_content = Inr (JString ''  Hi there '')"
       "''Hi there'' = trim ''  Hi there ''"
    by (simp_all add: known_bodies_def reply_body_def reply_value_def then_get_def
          trim_def is_white_def)
  with fetched_first [of "Response 200 (reply_body ''  Hi there '')" accepting "''Say hi''" None]
    T [where en = "scripted [Response 200 (reply_body ''  Hi there '')] accepting"
       and command = "''Say hi''" and w = "start None" and r = "''Hi there''"]
  have 8: "fst (sendSnippet (scripted [Response 200 (reply_body ''  Hi there '')] accepting)
             ''Say hi'' (start None)) = Inr ''Hi there''"
    by blast
  from 1 2 3 4 5 6 7 8 show ?thesis by blast
qed

text \<open>\<^bold>\<open>C3\<close>, as stated, fails for the response that is not 2xx: one with status 500 and a
  body with a candidate is a reply like any other, and one with status 429 and an error
  body fails exactly as the same body with status 200 does.\<close>

theorem non_2xx_with_candidates_is_a_reply:
  "fst (sendSnippet (scripted [Response 500 (reply_body ''Hi there'')] accepting) ''Say hi''
         (start None)) = Inr ''Hi there''
 \<and> fst (sendSnippet (scripted [Response 429 error_body] accepting) ''Say hi'' (start None))
     = fst (sendSnippet (scripted [Response 200 error_body] accepting) ''Say hi'' (start None))"
proof -
  have 1: "fst (sendSnippet (scripted [Response 500 (reply_body ''Hi there'')] accepting)
             ''Say hi'' (start None)) = Inr ''Hi there''"
    by (simp add: sendSnippet_fst fetched_first answer_of_reply parse_hi trim_hi)
  have 2: "fst (sendSnippet (scripted [Response 429 error_body] accepting) ''Say hi'' (start None))
     = fst (sendSnippet (scripted [Response 200 error_body] accepting) ''Say hi'' (start None))"
    by (simp add: sendSnippet_fst fetched_first answer_of_def parse_known then_get_def)
  from 1 2 show ?thesis ..
qed

text \<open>\<^bold>\<open>C4.\<close>  Whatever the command and the history, when the provider's response parses to an
  object whose \<^verbatim>\<open>choices\<close> is a list with a first candidate, and that candidate's
  \<^verbatim>\<open>message.content\<close> is a string, \<^const>\<open>sendSnippet\<close> returns that string trimmed: the
  string without the white space at its two ends.  The other candidates are not looked at.\<close>

theorem completion_returns_first_candidate_trimmed:
  assumes "fetched en command w = Inr (Response status raw)"
      and "JSON_parse en raw = Some (JObject kvs)"
      and "map_of kvs ''choices'' = Some (JArray (candidate # others))"
      and "get_prop candidate P_message = Inr message"
      and "get_prop message P_content = Inr (JString s)"
  shows "fst (sendSnippet en command w) = Inr (trim s)
       \<and> (\<exists>l r. s = l @ trim s @ r \<and> list_all is_white l \<and> list_all is_white r)
       \<and> (trim s = [] \<or> \<not> is_white (hd (trim s)) \<and> \<not> is_white (last (trim s)))"
proof -
  have "fst (sendSnippet en command w) = Inr (trim s)"
    using assms by (simp add: sendSnippet_fst answer_of_def then_get_def)
  moreover have "\<exists>l r. s = l @ trim s @ r \<and> list_all is_white l \<and> list_all is_white r"
    by (rule trim_parts)
  moreover have "trim s = [] \<or> \<not> is_white (hd (trim s)) \<and> \<not> is_white (last (trim s))"
    using trim_ends [of s] by blast
  ultimately show ?thesis by blast
qed

theorem completion_returns_first_candidate_trimmed_witness:
  "fst (sendSnippet (scripted [Response 200 (reply_body ''  Hi there '')] accepting)
          ''Say hi'' (start None)) = Inr ''Hi there''"
proof -
  let ?en = "scripted [Response 200 (reply_body ''  Hi there '')] accepting"
  have 1: "fetched ?en ''Say hi'' (start None) = Inr (Response 200 (reply_body ''  Hi there ''))"
    by (rule fetched_first)
  have 2: "JSON_parse ?en (reply_body ''  Hi there '') =
      Some (JObject [(''choices'', JArray [JObject [(''message'',
       JObject [(''role'', JString ''assistant''), (''content'', JString ''  Hi there '')])]])])"
    by (simp add: scripted_def known_bodies_def reply_body_def reply_value_def)
  have 3: "map_of [(''choices'', JArray [JObject [(''message'',
       JObject [(''role'', JString ''assistant''), (''content'', JString ''  Hi there '')])]])] ''choices''
     = Some (JArray (JObject [(''message'',
       JObject [(''role'', JString ''assistant''), (''content'', JString ''  Hi there '')])] # []))"
    by simp
  have 4: "get_prop (JObject [(''message'',
       JObject [(''role'', JString ''assistant''), (''content'', JString ''  Hi there '')])]) P_message
     = Inr (JObject [(''role'', JString ''assistant''), (''content'', JString ''  Hi there '')])"
    by simp
  have 5: "get_prop (JObject [(''role'', JString ''assistant''), (''content'', JString ''  Hi there '')])
       P_content = Inr (JString ''  Hi there '')"
    by simp
  have t: "trim ''  Hi there '' = ''Hi there''"
    by (simp add: trim_def is_white_def)
  from completion_returns_first_candidate_trimmed [OF 1 2 3 4 5, THEN conjunct1] t show ?thesis
    by simp
qed

text \<open>\<^bold>\<open>C10.\<close>  When a call of \<^const>\<open>sendSnippet\<close> returns, the history could be joined to a
  prompt, the provider answered the request for that prompt, and \<^verbatim>\<open>choices[0].message.content\<close>
  of the parsed answer is a string.  The world after the call is the world before it with
  two entries more at the end of the history, the command and then that string as the
  provider sent it, and with the one request more; nothing else has changed.  The caller
  gets the string trimmed.  The next call, whatever its command, sends the join of the
  history, in which the string stands untrimmed between the old prompt and the new command.\<close>

theorem sendSnippet_appends_two:
  assumes "sendSnippet en command w = (Inr r, w')"
  shows "\<exists>prompt status raw response answer.
           join nl (history w @ [JString command]) = Inr prompt
         \<and> fetched en command w = Inr (Response status raw)
         \<and> JSON_parse en raw = Some response
         \<and> then_get (then_get (then_get (get_prop response P_choices) P_0) P_message) P_content
             = Inr (JString answer)
         \<and> w' = w\<lparr>history := history w @ [JString command, JString answer],
                  sent := sent w @ [make_request en prompt]\<rparr>
         \<and> r = trim answer
         \<and> (\<forall>en' following.
               sent (snd (sendSnippet en' following w')) =
                 sent w' @ [make_request en' (prompt @ nl @ answer @ nl @ following)])"
proof -
  from sendSnippet_Inr [OF assms] obtain prompt s where
    j: "join nl (history w @ [JString command]) = Inr prompt" and
    a: "answer_of en (provider en (length (sent w)) (make_request en prompt)) = Inr (JString s)" and
    r: "r = trim s" and
    w': "w' = w\<lparr>history := history w @ [JString command, JString s],
             sent := sent w @ [make_request en prompt]\<rparr>"
    by blast
  from answer_of_Inr [OF a] obtain status raw response where
    p: "provider en (length (sent w)) (make_request en prompt) = Response status raw" and
    q: "JSON_parse en raw = Some response" and
    c: "then_get (then_get (then_get (get_prop response P_choices) P_0) P_message) P_content
          = Inr (JString s)"
    by blast
  from j p have f: "fetched en command w = Inr (Response status raw)"
    by (simp add: fetched_def)
  have n: "sent (snd (sendSnippet en' following w')) =
             sent w' @ [make_request en' (prompt @ nl @ s @ nl @ following)]" for en' following
    by (rule sendSnippet_sent) (simp add: w' join_snoc2(2) [OF j])
  from j f q c w' r n show ?thesis by blast
qed

theorem sendSnippet_appends_two_witness:
  "fst (sendSnippet (scripted [Response 200 (reply_body ''  Hi there '')] accepting)
          ''Say hi'' (start None)) = Inr ''Hi there''
   \<and> history (snd (sendSnippet
          (scripted [Response 200 (reply_body ''  Hi there '')] accepting)
          ''Say hi'' (start None))) = [JString ''Say hi'', JString ''  Hi there '']
   \<and> sent (snd (sendSnippet hi_env ''Again'' (snd (sendSnippet
          (scripted [Response 200 (reply_body ''  Hi there '')] accepting)
          ''Say hi'' (start None))))) =
       [make_request (scripted [Response 200 (reply_body ''  Hi there '')] accepting) ''Say hi'',
        make_request hi_env (''Say hi'' @ nl @ ''  Hi there '' @ nl @ ''Again'')]"
proof -
  let ?en = "scripted [Response 200 (reply_body ''  Hi there '')] accepting"
  let ?w' = "snd (sendSnippet ?en ''Say hi'' (start None))"
  have p: "map_of known_bodies (reply_body ''  Hi there '') = Some (reply_value ''  Hi there '')"
    by (simp add: known_bodies_def reply_body_def)
  have a: "answer_of ?en (Response 200 (reply_body ''  Hi there '')) = Inr (JString ''  Hi there '')"
    by (simp add: answer_of_reply p)
  have f: "fst (sendSnippet ?en ''Say hi'' (start None)) = Inr (trim ''  Hi there '')"
    by (simp add: sendSnippet_fst fetched_first a)
  have t: "trim ''  Hi there '' = ''Hi there''"
    by (simp add: trim_def is_white_def)
  from f have "sendSnippet ?en ''Say hi'' (start None) = (Inr (trim ''  Hi there ''), ?w')"
    by (rule prod_from_fst)
  from sendSnippet_appends_two [OF this] obtain prompt status raw response answer where
    j: "join nl (history (start None) @ [JString ''Say hi'']) = Inr prompt" and
    q: "fetched ?en ''Say hi'' (start None) = Inr (Response status raw)"
       "JSON_parse ?en raw = Some response"
       "then_get (then_get (then_get (get_prop response P_choices) P_0) P_message) P_content
          = Inr (JString answer)" and
    w': "?w' = (start None)\<lparr>history := history (start None) @ [JString ''Say hi'', JString answer],
                  sent := sent (start None) @ [make_request ?en prompt]\<rparr>" and
    n: "\<And>en' following. sent (snd (sendSnippet en' following ?w')) =
                 sent ?w' @ [make_request en' (prompt @ nl @ answer @ nl @ following)]"
    by blast
  from j have prompt: "prompt = ''Say hi''" by simp
  from q(1) have raw: "raw = reply_body ''  Hi there ''"
    by (simp add: fetched_first)
  from q(2) have "response = reply_value ''  Hi there ''"
    by (simp add: raw p)
  with q(3) have answer: "answer = ''  Hi there ''"
    by (simp add: reply_value_def then_get_def)
  have h: "history ?w' = [JString ''Say hi'', JString ''  Hi there '']"
    and s: "sent ?w' = [make_request ?en ''Say hi'']"
    by (subst w', simp add: answer prompt)+
  from n [of hi_env "''Again''"] have
    "sent (snd (sendSnippet hi_env ''Again'' ?w')) =
       [make_request ?en ''Say hi'',
        make_request hi_env (''Say hi'' @ nl @ ''  Hi there '' @ nl @ ''Again'')]"
    by (simp only: s answer prompt append.simps)
  with f t h show ?thesis by simp
qed

section \<open>The memory file\<close>

text \<open>\<^bold>\<open>C7\<close>, as the code has it.  When the file is missing or cannot be read,
  \<^const>\<open>readMemory\<close> returns the fixed text \<^verbatim>\<open>{history:[]}\<close>, and the prompt embeds that text;
  a file that can be read is returned as it is, whatever it holds.  \<^const>\<open>readMemory\<close>
  is total: it returns a text and never an error.\<close>

theorem default_memory:
  "readMemory (start None) = ''{history:[]}''
 \<and> readMemory (start (Some text)) = text
 \<and> sublist ''{history:[]}'' (assist_prompt message (readMemory (start None)))"
proof -
  have 1: "readMemory (start None) = ''{history:[]}''"
    by (simp add: readMemory_def)
  have "sublist m (assist_prompt message m)" for m
    unfolding sublist_def assist_prompt_def by (metis append.assoc)
  with 1 show ?thesis by (simp add: readMemory_def)
qed

text \<open>\<^bold>\<open>C7\<close>, as stated, fails twice.  The default is not \<^verbatim>\<open>{}\<close>, and there is no
  quotation mark in it, which the member name of a JSON object needs.  A file that was cut
  off in the middle is returned as it is, not replaced by the default.\<close>

theorem default_memory_is_not_braces:
  "readMemory (start None) \<noteq> ''{}''
 \<and> CHR 0x22 \<notin> set (readMemory (start None))
 \<and> readMemory (start (Some cut_off_memory)) = cut_off_memory
 \<and> readMemory (start (Some cut_off_memory)) \<noteq> readMemory (start None)"
  by (simp add: readMemory_def cut_off_memory_def)

text \<open>\<^bold>\<open>C8.\<close>  When \<^const>\<open>writeTextFile\<close> has written a memory, the file holds that text,
  and \<^const>\<open>readMemory\<close> in a process started afterwards returns it unchanged.\<close>

theorem save_then_load:
  assumes "writeTextFile en memory w = (Inr (), w')"
  shows "memory_json w' = Some memory \<and> readMemory (start (memory_json w')) = memory"
  using assms by (auto simp: writeTextFile_def readMemory_def split: write_result.splits)

theorem save_then_load_witness:
  "readMemory (start (memory_json (snd (writeTextFile hi_env felix_memory (start None)))))
     = felix_memory"
proof -
  have "writeTextFile hi_env felix_memory (start None) =
      (Inr (), snd (writeTextFile hi_env felix_memory (start None)))"
    by (simp add: writeTextFile_def hi_env_def accepting_def)
  from save_then_load [OF this, THEN conjunct2] show ?thesis .
qed

section \<open>One run of the script\<close>

text \<open>\<^bold>\<open>C5.\<close>  The first request of a run is the one made for the prompt of \<^const>\<open>assist\<close>,
  built from the joined arguments and the memory read, and its body is the JSON text of
  the data whose one message has that prompt as content.  The prompt holds the memory
  after the line \<^verbatim>\<open>This is your current memory:\<close> and the message after the line
  \<^verbatim>\<open>Here is my message to you:\<close>, both unchanged.  With the stored memory
  \<^const>\<open>felix_memory\<close> the prompt contains \<^verbatim>\<open>Felix\<close>.\<close>

theorem primary_prompt_embeds_memory_and_message:
  "(\<exists>rest. sent (snd (run en args (start file))) =
      make_request en (assist_prompt (join_text '' '' args) (readMemory (start file))) # rest)
 \<and> body (make_request en (assist_prompt message memory)) =
      JSON_stringify (JObject [(''model'', JString ''gpt-3.5-turbo''),
        (''messages'', JArray [JObject [(''role'', JString ''user''),
                                        (''content'', JString (assist_prompt message memory))]])])
 \<and> (\<exists>intro. assist_prompt message memory =
        intro @ ''This is your current memory:'' @ nl @ memory @ nl @ nl
              @ ''Here is my message to you:'' @ nl @ message @ nl)
 \<and> sublist memory (assist_prompt message memory)
 \<and> sublist message (assist_prompt message memory)
 \<and> readMemory (start (Some felix_memory)) = felix_memory
 \<and> sublist ''Felix'' (assist_prompt message felix_memory)"
proof -
  have 1: "\<exists>rest. sent (snd (run en args (start file))) =
      make_request en (assist_prompt (join_text '' '' args) (readMemory (start file))) # rest"
    by (rule run_sent_first)
  have 2: "assist_prompt message memory =
        (nl @ ''You are my personal assistant. You have a json-based memory to enrich your replies.''
         @ nl @ nl) @ ''This is your current memory:'' @ nl @ memory @ nl @ nl
              @ ''Here is my message to you:'' @ nl @ message @ nl"
    by (simp add: assist_prompt_def)
  have 3: "sublist m (assist_prompt message m)" for m
    unfolding sublist_def assist_prompt_def by (metis append.assoc)
  have 4: "sublist message (assist_prompt message memory)"
    unfolding sublist_def assist_prompt_def by (metis append.assoc)
  have "felix_memory = ''{'' @ [CHR 0x22] @ ''name'' @ [CHR 0x22] @ '':'' @ [CHR 0x22] @ ''Felix'' @ [CHR 0x22] @ ''}''"
    by (simp add: felix_memory_def)
  then have "sublist ''Felix'' felix_memory"
    unfolding sublist_def by (metis append.assoc)
  then have 5: "sublist ''Felix'' (assist_prompt message felix_memory)"
    using 3 [of felix_memory] sublist_order.order_trans by blast
  have 6: "readMemory (start (Some felix_memory)) = felix_memory"
    by (simp add: readMemory_def)
  have 7: "body (make_request en (assist_prompt message memory)) =
      JSON_stringify (JObject [(''model'', JString ''gpt-3.5-turbo''),
        (''messages'', JArray [JObject [(''role'', JString ''user''),
                                        (''content'', JString (assist_prompt message memory))]])])"
    by (simp only: make_request_def request_data_def request.simps)
  from 1 2 3 4 5 6 7 show ?thesis by blast
qed

text \<open>\<^bold>\<open>C9.\<close>  In a run whose first call returned, two requests are sent.  The prompt of the
  second is the prompt of \<^const>\<open>assist\<close>, a line break, the first answer untrimmed, a line
  break, and the prompt of \<^const>\<open>optimizeMemory\<close> with the candidate blob: the join of the
  whole history, and not the last of these three alone.\<close>

theorem distillation_prompt_is_whole_history:
  assumes "assist en (join_text '' '' args) (readMemory (start file)) (start file) = (Inr reply, w1)"
  shows "\<exists>answer. reply = trim answer
     \<and> history w1 = [JString (assist_prompt (join_text '' '' args) (readMemory (start file))),
                      JString answer]
     \<and> sent (snd (run en args (start file))) =
         [make_request en (assist_prompt (join_text '' '' args) (readMemory (start file))),
          make_request en
            (assist_prompt (join_text '' '' args) (readMemory (start file)) @ nl @ answer @ nl
             @ optimizeMemory_prompt (JSON_stringify
                 (newMemory (readMemory (start file)) (join_text '' '' args) reply)))]
     \<and> assist_prompt (join_text '' '' args) (readMemory (start file)) @ nl @ answer @ nl
             @ optimizeMemory_prompt (JSON_stringify
                 (newMemory (readMemory (start file)) (join_text '' '' args) reply))
         \<noteq> optimizeMemory_prompt (JSON_stringify
                 (newMemory (readMemory (start file)) (join_text '' '' args) reply))"
proof -
  let ?P1 = "assist_prompt (join_text '' '' args) (readMemory (start file))"
  let ?blob = "JSON_stringify (newMemory (readMemory (start file)) (join_text '' '' args) reply)"
  from assms have "sendSnippet en ?P1 (start file) = (Inr reply, w1)"
    by (simp add: assist_def)
  from sendSnippet_Inr [OF this] obtain prompt answer where
    j: "join nl (history (start file) @ [JString ?P1]) = Inr prompt" and
    r: "reply = trim answer" and
    w1: "w1 = (start file)\<lparr>history := history (start file) @ [JString ?P1, JString answer],
           sent := sent (start file) @ [make_request en prompt]\<rparr>"
    by blast
  from j have prompt: "prompt = ?P1" by simp
  have h1: "history w1 = [JString ?P1, JString answer]"
    and s1: "sent w1 = [make_request en ?P1]"
    by (simp_all add: w1 prompt)
  obtain r' w3 where o: "optimizeMemory en ?blob (console_log [reply] w1) = (r', w3)"
    by (cases "optimizeMemory en ?blob (console_log [reply] w1)")
  have "join nl (history (console_log [reply] w1) @ [JString (optimizeMemory_prompt ?blob)]) =
      Inr (?P1 @ nl @ answer @ nl @ optimizeMemory_prompt ?blob)"
    by (simp add: h1)
  from optimizeMemory_sent [OF this, of en] have s3: "sent w3 =
      [make_request en ?P1, make_request en (?P1 @ nl @ answer @ nl @ optimizeMemory_prompt ?blob)]"
    by (simp add: o s1)
  have "sent (snd (run en args (start file))) = sent w3"
    by (simp add: run_after_reply [OF assms o] writeTextFile_keeps split: sum.split)
  with s3 have 1: "sent (snd (run en args (start file))) =
      [make_request en ?P1, make_request en (?P1 @ nl @ answer @ nl @ optimizeMemory_prompt ?blob)]"
    by simp
  have "length (?P1 @ nl @ answer @ nl @ optimizeMemory_prompt ?blob)
          \<noteq> length (optimizeMemory_prompt ?blob)"
    by (simp add: nl_def)
  then have 2: "?P1 @ nl @ answer @ nl @ optimizeMemory_prompt ?blob \<noteq> optimizeMemory_prompt ?blob"
    by metis
  from r h1 1 2 show ?thesis by blast
qed

theorem distillation_prompt_is_whole_history_witness:
  "sent (snd (run hi_env [''Hello''] (start None))) =
     [make_request hi_env (assist_prompt ''Hello'' ''{history:[]}''),
      make_request hi_env
        (assist_prompt ''Hello'' ''{history:[]}'' @ nl @ ''Hi there'' @ nl
         @ optimizeMemory_prompt hello_blob)]"
proof -
  note a = always_replies_answer [OF hi_always]
  have m: "readMemory (start None) = ''{history:[]}''" "join_text '' '' [''Hello''] = ''Hello''"
    by (simp_all add: readMemory_def)
  have "assist hi_env (join_text '' '' [''Hello'']) (readMemory (start None)) (start None) =
     (Inr ''Hi there'',
      snd (assist hi_env (join_text '' '' [''Hello'']) (readMemory (start None)) (start None)))"
    by (rule prod_from_fst) (simp add: m assist_def sendSnippet_eq a trim_hi)
  from distillation_prompt_is_whole_history [OF this] obtain answer where
    h: "history (snd (assist hi_env (join_text '' '' [''Hello'']) (readMemory (start None))
                   (start None))) =
          [JString (assist_prompt (join_text '' '' [''Hello'']) (readMemory (start None))),
           JString answer]"
    and s: "sent (snd (run hi_env [''Hello''] (start None))) =
         [make_request hi_env (assist_prompt (join_text '' '' [''Hello'']) (readMemory (start None))),
          make_request hi_env
            (assist_prompt (join_text '' '' [''Hello'']) (readMemory (start None)) @ nl @ answer @ nl
             @ optimizeMemory_prompt (JSON_stringify
                 (newMemory (readMemory (start None)) (join_text '' '' [''Hello'']) ''Hi there'')))]"
    by blast
  from h have "answer = ''Hi there''"
    by (simp add: m assist_def sendSnippet_eq a)
  with s show ?thesis
    by (simp add: m stringify_hello)
qed

text \<open>\<^bold>\<open>C2.\<close>  When the first completion call of a run fails, the run ends with that error and
  exit status 1; the file \<^verbatim>\<open>memory.json\<close> and the standard output are as they were before
  the run.  At most one request was sent, never the second; it is exactly the one for the
  prompt of \<^const>\<open>assist\<close> whenever the history could be joined to a prompt, as it always can
  in a process that has just started.\<close>

theorem primary_failure_aborts:
  assumes "assist en (join_text '' '' args) (readMemory w) w = (Inl e, w1)"
  shows "run en args w = (Inl e, w1) \<and> exit_status (fst (run en args w)) = 1
       \<and> memory_json w1 = memory_json w \<and> stdout w1 = stdout w
       \<and> length (sent w1) \<le> Suc (length (sent w))
       \<and> (join nl (history w @ [JString (assist_prompt (join_text '' '' args) (readMemory w))])
            = Inr prompt \<longrightarrow>
          sent w1 = sent w @ [make_request en prompt])"
proof -
  have r: "run en args w = (Inl e, w1)"
    using assms by (simp add: run_def)
  have w1: "w1 = snd (sendSnippet en (assist_prompt (join_text '' '' args) (readMemory w)) w)"
    using assms by (simp add: assist_def)
  have "join nl (history w @ [JString (assist_prompt (join_text '' '' args) (readMemory w))])
            = Inr prompt \<Longrightarrow> sent w1 = sent w @ [make_request en prompt]"
    unfolding w1 by (rule sendSnippet_sent)
  then show ?thesis
    by (simp add: r exit_status_def w1 sendSnippet_keeps sendSnippet_sent_le)
qed

theorem primary_failure_aborts_witness:
  "fst (run (scripted [] accepting) [''Hello''] (start (Some ''{}''))) = Inl NetworkError
   \<and> exit_status (fst (run (scripted [] accepting) [''Hello''] (start (Some ''{}'')))) = 1
   \<and> memory_json (snd (run (scripted [] accepting) [''Hello''] (start (Some ''{}'')))) = Some ''{}''
   \<and> stdout (snd (run (scripted [] accepting) [''Hello''] (start (Some ''{}'')))) = []
   \<and> sent (snd (run (scripted [] accepting) [''Hello''] (start (Some ''{}'')))) =
        [make_request (scripted [] accepting) (assist_prompt ''Hello'' ''{}'')]"
proof -
  let ?en = "scripted [] accepting"
  let ?w = "start (Some ''{}'')"
  have "fst (assist ?en (join_text '' '' [''Hello'']) (readMemory ?w) ?w) = Inl NetworkError"
    by (simp add: assist_def sendSnippet_fst fetched_def answer_of_def)
  then have "assist ?en (join_text '' '' [''Hello'']) (readMemory ?w) ?w =
      (Inl NetworkError, snd (assist ?en (join_text '' '' [''Hello'']) (readMemory ?w) ?w))"
    by (rule prod_from_fst)
  note T = primary_failure_aborts [OF this,
      of "assist_prompt (join_text '' '' [''Hello'']) (readMemory ?w)"]
  have "join nl (history ?w @ [JString (assist_prompt (join_text '' '' [''Hello'']) (readMemory ?w))])
          = Inr (assist_prompt (join_text '' '' [''Hello'']) (readMemory ?w))"
    by simp
  with T have "sent (snd (assist ?en (join_text '' '' [''Hello'']) (readMemory ?w) ?w)) =
      sent ?w @ [make_request ?en (assist_prompt (join_text '' '' [''Hello'']) (readMemory ?w))]"
    by blast
  with T show ?thesis by (auto simp: readMemory_def)
qed

text \<open>\<^bold>\<open>C1\<close>, as the code has it.  After the reply has been printed, nothing catches a
  failure.  When the distillation call fails, the run ends with that error and exit
  status 1; the reply is the one line printed, and the file is as it was before the run.
  When the distillation call returns and the write of the file is rejected, the run ends
  with a storage error and exit status 1; the reply and the distilled memory have been
  printed, and the file holds what the rejected write left.\<close>

theorem late_failure_keeps_reply:
  assumes "assist en (join_text '' '' args) (readMemory w) w = (Inr reply, w1)"
      and "optimizeMemory en
             (JSON_stringify (newMemory (readMemory w) (join_text '' '' args) reply))
             (console_log [reply] w1) = (r, w3)"
  shows "(r = Inl e \<longrightarrow>
            run en args w = (Inl e, w3) \<and> exit_status (fst (run en args w)) = 1
          \<and> stdout w3 = stdout w @ [reply] \<and> memory_json w3 = memory_json w)
       \<and> (r = Inr distilled \<and> storage en (memory_json w) distilled = WriteRejected left \<longrightarrow>
            fst (run en args w) = Inl StorageError \<and> exit_status (fst (run en args w)) = 1
          \<and> stdout (snd (run en args w)) =
               stdout w @ [reply, [CHR 0x1B] @ ''[34m '' @ distilled]
          \<and> memory_json (snd (run en args w)) = left)"
proof -
  have w1: "w1 = snd (sendSnippet en (assist_prompt (join_text '' '' args) (readMemory w)) w)"
    using assms(1) by (simp add: assist_def)
  have w3: "w3 = snd (optimizeMemory en
             (JSON_stringify (newMemory (readMemory w) (join_text '' '' args) reply))
             (console_log [reply] w1))"
    using assms(2) by simp
  have m1: "memory_json w1 = memory_json w" and s1: "stdout w1 = stdout w"
    by (simp_all add: w1 sendSnippet_keeps)
  have m3: "memory_json w3 = memory_json w" and s3: "stdout w3 = stdout w @ [reply]"
    by (simp_all add: w3 optimizeMemory_keeps m1 s1)
  have run: "run en args w =
      (case r of Inl e \<Rightarrow> (Inl e, w3)
       | Inr distilled \<Rightarrow> writeTextFile en distilled
           (console_log [[CHR 0x1B] @ ''[34m'', distilled] w3))"
    using assms by (simp add: run_def)
  show ?thesis
    by (simp add: run exit_status_def m3 s3 writeTextFile_def)
qed

theorem late_failure_keeps_reply_witness:
  "run distill_fails_env [''Hello''] (start (Some ''{}'')) =
     (Inl NetworkError,
      snd (optimizeMemory distill_fails_env
       (JSON_stringify (newMemory (readMemory (start (Some ''{}'')))
          (join_text '' '' [''Hello'']) ''Hi there''))
       (console_log [''Hi there'']
          (snd (assist distill_fails_env (join_text '' '' [''Hello''])
             (readMemory (start (Some ''{}''))) (start (Some ''{}'')))))))
   \<and> exit_status (fst (run distill_fails_env [''Hello''] (start (Some ''{}'')))) = 1
   \<and> stdout (snd (run distill_fails_env [''Hello''] (start (Some ''{}'')))) = [''Hi there'']
   \<and> memory_json (snd (run distill_fails_env [''Hello''] (start (Some ''{}'')))) = Some ''{}''
   \<and> fst (run save_fails_env [''Hello''] (start (Some ''{}''))) = Inl StorageError
   \<and> exit_status (fst (run save_fails_env [''Hello''] (start (Some ''{}'')))) = 1
   \<and> stdout (snd (run save_fails_env [''Hello''] (start (Some ''{}'')))) =
        [''Hi there'', [CHR 0x1B] @ ''[34m Hi there'']
   \<and> memory_json (snd (run save_fails_env [''Hello''] (start (Some ''{}'')))) = Some []"
proof -
  note A = late_failure_keeps_reply [OF distill_fails_steps(1) distill_fails_steps(2),
      of NetworkError, THEN conjunct1, THEN mp, OF refl]
  note B = late_failure_keeps_reply [OF save_fails_steps(1) save_fails_steps(2),
      of _ "''Hi there''" "Some []", THEN conjunct2, THEN mp,
      OF conjI [OF refl save_fails_steps(3)]]
  from A B show ?thesis by auto
qed

text \<open>\<^bold>\<open>C1\<close>, as stated, fails: with the reply printed and the distillation call rejected
  the exit status is not zero, and a write that is rejected after it has emptied the file
  leaves the memory changed.\<close>

theorem late_failure_exits_nonzero:
  "stdout (snd (run distill_fails_env [''Hello''] (start (Some ''{}'')))) = [''Hi there'']
   \<and> fst (run distill_fails_env [''Hello''] (start (Some ''{}''))) = Inl NetworkError
   \<and> exit_status (fst (run distill_fails_env [''Hello''] (start (Some ''{}'')))) \<noteq> 0
   \<and> fst (run save_fails_env [''Hello''] (start (Some ''{}''))) = Inl StorageError
   \<and> exit_status (fst (run save_fails_env [''Hello''] (start (Some ''{}'')))) \<noteq> 0
   \<and> memory_json (snd (run save_fails_env [''Hello''] (start (Some ''{}'')))) \<noteq> Some ''{}''"
proof -
  note A = run_after_reply [OF distill_fails_steps(1) distill_fails_steps(2)]
  note B = run_after_reply [OF save_fails_steps(1) save_fails_steps(2)]
  have 1: "stdout (snd (run distill_fails_env [''Hello''] (start (Some ''{}'')))) = [''Hi there'']"
    by (simp add: A optimizeMemory_keeps assist_def sendSnippet_keeps)
  have 2: "fst (run distill_fails_env [''Hello''] (start (Some ''{}''))) = Inl NetworkError"
    by (simp add: A)
  have 3: "fst (run save_fails_env [''Hello''] (start (Some ''{}''))) = Inl StorageError"
    "memory_json (snd (run save_fails_env [''Hello''] (start (Some ''{}'')))) = Some []"
    using save_fails_steps(3)
    by (simp_all add: B writeTextFile_def optimizeMemory_keeps assist_def sendSnippet_keeps)
  from 1 2 3 show ?thesis by (simp add: exit_status_def)
qed

text \<open>\<^bold>\<open>C6\<close>, as the code has it.  With no memory file, the message \<^verbatim>\<open>Hello\<close> and a provider
  that always answers \<^verbatim>\<open>Hi there\<close>, the run prints \<^verbatim>\<open>Hi there\<close> and then the distilled
  memory, and the candidate blob given to the distillation is \<^const>\<open>hello_blob\<close>, the JSON
  text of the three fields with the default memory \<^verbatim>\<open>{history:[]}\<close> in the first.\<close>

theorem hello_scenario:
  assumes "always_replies en ''Hi there''"
  shows "stdout (snd (run en [''Hello''] (start None))) =
           [''Hi there'', [CHR 0x1B] @ ''[34m Hi there'']
       \<and> history (snd (run en [''Hello''] (start None))) =
           [JString (assist_prompt ''Hello'' ''{history:[]}''), JString ''Hi there'',
            JString (optimizeMemory_prompt hello_blob), JString ''Hi there'']
       \<and> JSON_stringify (newMemory ''{history:[]}'' ''Hello'' ''Hi there'') = hello_blob"
  using hello_run(1,2) [OF assms] by (simp add: stringify_hello)

theorem hello_scenario_witness:
  "stdout (snd (run hi_env [''Hello''] (start None))) = [''Hi there'', [CHR 0x1B] @ ''[34m Hi there'']
   \<and> history (snd (run hi_env [''Hello''] (start None))) ! 2 = JString (optimizeMemory_prompt hello_blob)"
  using hello_scenario [OF hi_always] by simp

text \<open>\<^bold>\<open>C6\<close>, as stated, fails: the third entry of the history, which is the prompt made
  from the candidate blob, is not the one made from the blob with memory \<^verbatim>\<open>{}\<close>.\<close>

theorem hello_blob_is_not_from_braces:
  "history (snd (run hi_env [''Hello''] (start None))) ! 2
     \<noteq> JString (optimizeMemory_prompt (JSON_stringify (newMemory ''{}'' ''Hello'' ''Hi there'')))"
proof -
  have "hello_blob \<noteq> hello_blob_braces"
    by (simp add: hello_blob_def hello_blob_braces_def)
  then have "optimizeMemory_prompt hello_blob \<noteq> optimizeMemory_prompt hello_blob_braces"
    by (simp add: optimizeMemory_prompt_def)
  then show ?thesis
    by (simp add: hello_run(2) [OF hi_always] stringify_hello stringify_hello_braces)
qed

end
